theory Spec2Isabelle
  imports Main
begin

section \<open>The JSON source of yagcl-json: data model\<close>

text \<open>
  The development embeds the final revision of the package \<open>yagcl_json\<close> (file
  \<open>json.go\<close>): the source configuration (\<open>jsonSourceImpl\<close>), its verification and
  byte acquisition, \<open>Parse\<close>, and the recursive field binder \<open>parse\<close>.

  Go's reflection objects are modelled by two datatypes: \<open>gotype\<close> for
  \<open>reflect.Type\<close> and \<open>govalue\<close> for the contents of a \<open>reflect.Value\<close>. Values
  are trees: a pointer holds the value it points to, so two pointers never share a
  target. Byte slices are \<open>string\<close>s (lists of 8-bit characters).
\<close>

subsection \<open>Types, as \<open>reflect.Type\<close> shows them\<close>

datatype kind =
    reflect_Invalid | reflect_Bool
  | reflect_Int | reflect_Int8 | reflect_Int16 | reflect_Int32 | reflect_Int64
  | reflect_Uint | reflect_Uint8 | reflect_Uint16 | reflect_Uint32 | reflect_Uint64
  | reflect_Uintptr | reflect_Float32 | reflect_Float64
  | reflect_Complex64 | reflect_Complex128
  | reflect_Array | reflect_Chan | reflect_Func | reflect_Interface | reflect_Map
  | reflect_Pointer | reflect_Slice | reflect_String | reflect_Struct
  | reflect_UnsafePointer

text \<open>
  A type is a pointer type, a struct type with its name and its fields in declaration
  order, or any other type, given by its name and its kind (the kinds \<open>Pointer\<close>
  and \<open>Struct\<close> belong to the first two forms). A struct field carries what
  \<open>reflect.StructField\<close> carries: name, tag (key/value pairs), whether it is
  exported, and its type.
\<close>

datatype gotype =
    PointerTo gotype
  | StructOf string "structField list"
  | Named string kind
and structField =
    StructField (Name: string) (Tag: "(string \<times> string) list") (Exported: bool)
      (Type: gotype)

fun Kind :: "gotype \<Rightarrow> kind" where
  "Kind (PointerTo t) = reflect_Pointer"
| "Kind (StructOf n fs) = reflect_Struct"
| "Kind (Named n k) = k"

fun extractNonPointerFieldType :: "gotype \<Rightarrow> gotype" where
  "extractNonPointerFieldType (PointerTo t) = extractNonPointerFieldType t"
| "extractNonPointerFieldType t = t"

text \<open>\<open>reflect.StructTag.Get\<close>: the value under a key, the empty string when absent.\<close>

definition Tag_Get :: "(string \<times> string) list \<Rightarrow> string \<Rightarrow> string" where
  "Tag_Get tag k = (case map_of tag k of None \<Rightarrow> [] | Some v \<Rightarrow> v)"

text \<open>
  \<open>time.Duration\<close> is a defined type of kind \<open>Int64\<close>. A defined type is assignable
  to it only when it is the very same type, which is how
  \<open>fieldType.AssignableTo(reflect.TypeOf(time.Duration(0)))\<close> is modelled.
\<close>

definition durationType :: gotype where
  "durationType = Named ''time.Duration'' reflect_Int64"

definition AssignableTo :: "gotype \<Rightarrow> gotype \<Rightarrow> bool" where
  "AssignableTo t u = (t = u)"

subsection \<open>Values\<close>

datatype govalue =
    VNil
  | VPtr govalue
  | VStruct "govalue list"
  | VString string
  | VInt int
  | VBool bool
  | VOther string

text \<open>
  \<open>VNil\<close> is the nil pointer, \<open>VPtr v\<close> a pointer to a variable holding \<open>v\<close>,
  \<open>VInt\<close> a value of any integer kind (a \<open>time.Duration\<close> is its count of
  nanoseconds), and \<open>VOther r\<close> a value of a kind the binder never inspects (floats,
  slices, maps, ...), kept as an uninterpreted representation whose empty form is the
  zero value.
\<close>

fun IsZero :: "govalue \<Rightarrow> bool" where
  "IsZero VNil = True"
| "IsZero (VPtr v) = False"
| "IsZero (VStruct vs) = list_all IsZero vs"
| "IsZero (VString s) = (s = [])"
| "IsZero (VInt i) = (i = 0)"
| "IsZero (VBool b) = (\<not> b)"
| "IsZero (VOther r) = (r = [])"

definition integerKinds :: "kind list" where
  "integerKinds =
     [reflect_Int, reflect_Int8, reflect_Int16, reflect_Int32, reflect_Int64,
      reflect_Uint, reflect_Uint8, reflect_Uint16, reflect_Uint32, reflect_Uint64,
      reflect_Uintptr]"

text \<open>The zero value that \<open>reflect.New\<close> stores in a fresh variable of a type.\<close>

fun zeroValue :: "gotype \<Rightarrow> govalue"
and zeroField :: "structField \<Rightarrow> govalue" where
  "zeroValue (PointerTo t) = VNil"
| "zeroValue (StructOf n fs) = VStruct (map zeroField fs)"
| "zeroValue (Named n k) =
     (if k = reflect_String then VString []
      else if k = reflect_Bool then VBool False
      else if k \<in> set integerKinds then VInt 0
      else VOther [])"
| "zeroField (StructField n tg ex t) = zeroValue t"

text \<open>\<open>reflect.Indirect\<close>: one level of dereference for a pointer, the value itself otherwise.\<close>

fun Indirect :: "govalue \<Rightarrow> govalue" where
  "Indirect (VPtr v) = v"
| "Indirect v = v"

subsection \<open>Errors\<close>

text \<open>
  Errors of the byte acquisition (\<open>os.ReadFile\<close>, \<open>io.ReadAll\<close>): \<open>NotExist\<close> is
  an error that \<open>os.IsNotExist\<close> recognises, \<open>WrappedNotExist\<close> one that only
  \<open>errors.Is(err, fs.ErrNotExist)\<close> recognises, \<open>IOFailure\<close> any other.
\<close>

datatype ioerror = NotExist | WrappedNotExist | IOFailure string

definition os_IsNotExist :: "ioerror \<Rightarrow> bool" where
  "os_IsNotExist err = (err = NotExist)"

definition errors_Is_ErrNotExist :: "ioerror \<Rightarrow> bool" where
  "errors_Is_ErrNotExist err = (err = NotExist \<or> err = WrappedNotExist)"

text \<open>Errors of the package \<open>jsonparser\<close>; only \<open>KeyPathNotFoundError\<close> is told apart.\<close>

datatype jperror = KeyPathNotFoundError | OtherJsonparserError string

text \<open>The coarse type \<open>jsonparser.ValueType\<close> of a located node.\<close>

datatype ValueType =
    jsonparser_NotExist | jsonparser_String | jsonparser_Number | jsonparser_Object
  | jsonparser_Array | jsonparser_Boolean | jsonparser_Null | jsonparser_Unknown

text \<open>
  Every error value the package returns, one constructor per place that builds it. A
  panic of the reflection library is the value \<open>Panic\<close>; it ends every enclosing call
  like an error does.
\<close>

datatype error =
    ErrNoDataSourceSpecified
  | ErrMultipleDataSourcesSpecified
  | ErrSourceNotFound
  | ErrAcquisition ioerror
  | ErrVerificationMustHaveFailed
  | MissingKeyError string
  | JsonparserError "string list" jperror
  | UnmarshalError "string list" string
  | IncorrectJSONTypeError string ValueType
  | UnsupportedTypeError string
  | DurationParseError string string
  | Panic

text \<open>The sentinel of package \<open>yagcl\<close> that an error wraps (\<open>%w\<close>), if any.\<close>

datatype sentinel =
    ErrParseValue | ErrUnsupportedFieldType | ErrExportedFieldMissingKey

fun Unwrap :: "error \<Rightarrow> sentinel option" where
  "Unwrap (MissingKeyError n) = Some ErrExportedFieldMissingKey"
| "Unwrap (JsonparserError p c) = Some ErrParseValue"
| "Unwrap (UnmarshalError p c) = Some ErrParseValue"
| "Unwrap (IncorrectJSONTypeError n t) = Some ErrParseValue"
| "Unwrap (UnsupportedTypeError n) = Some ErrUnsupportedFieldType"
| "Unwrap (DurationParseError s n) = Some ErrParseValue"
| "Unwrap err = None"

definition newUnmarshalError :: "string list \<Rightarrow> string \<Rightarrow> error" where
  "newUnmarshalError jsonPath err = UnmarshalError jsonPath err"

definition newJsonparserError :: "string list \<Rightarrow> jperror \<Rightarrow> error" where
  "newJsonparserError jsonPath err = JsonparserError jsonPath err"

subsection \<open>The collaborators\<close>

text \<open>
  What the package calls but does not define is a parameter of the model: the file
  system, the parsing companion of \<open>yagcl\<close>, the node locator and string unescaper
  of \<open>jsonparser\<close>, the decode hooks that user types implement, and the decoders
  of the standard library. A hook of a type is \<open>None\<close> when the pointer to the type
  does not implement the interface. \<open>Unmarshal\<close> gives the content of the interface
  variable \<open>value\<close> after \<open>json.Unmarshal(valueBytes, &value)\<close>: \<open>None\<close> is the
  nil interface.
\<close>

record env =
  ReadFile :: "string \<Rightarrow> ioerror + string"
  IncludeField :: "structField \<Rightarrow> bool"
  ExtractFieldKey :: "structField \<Rightarrow> string"
  Get :: "string \<Rightarrow> string list \<Rightarrow> jperror + (string \<times> ValueType)"
  ParseString :: "string \<Rightarrow> jperror + string"
  jsonUnmarshaler :: "gotype \<Rightarrow> (string \<Rightarrow> string + govalue) option"
  textUnmarshaler :: "gotype \<Rightarrow> (string \<Rightarrow> string + govalue) option"
  ParseDuration :: "string \<Rightarrow> string + int"
  Unmarshal :: "gotype \<Rightarrow> string \<Rightarrow> string + govalue option"

section \<open>The source and its byte acquisition\<close>

text \<open>
  The field \<open>reader\<close> is \<open>None\<close> for a nil reader and otherwise holds what
  \<open>io.ReadAll\<close> returns on it.
\<close>

record jsonSourceImpl =
  must :: bool
  path :: string
  bytes :: string
  reader :: "(ioerror + string) option"

definition Source :: jsonSourceImpl where
  "Source = \<lparr>must = False, path = [], bytes = [], reader = None\<rparr>"

definition Must :: "jsonSourceImpl \<Rightarrow> jsonSourceImpl" where
  "Must s = s\<lparr>must := True\<rparr>"

definition KeyTag :: string where
  "KeyTag = ''json''"

definition Bytes :: "string \<Rightarrow> jsonSourceImpl \<Rightarrow> jsonSourceImpl" where
  "Bytes data s = s\<lparr>bytes := data\<rparr>"

definition String_src :: "string \<Rightarrow> jsonSourceImpl \<Rightarrow> jsonSourceImpl" where
  "String_src str s = s\<lparr>bytes := str\<rparr>"

definition Path :: "string \<Rightarrow> jsonSourceImpl \<Rightarrow> jsonSourceImpl" where
  "Path p s = s\<lparr>path := p\<rparr>"

definition Reader :: "(ioerror + string) \<Rightarrow> jsonSourceImpl \<Rightarrow> jsonSourceImpl" where
  "Reader r s = s\<lparr>reader := Some r\<rparr>"

text \<open>
  The deferred function of \<open>getBytes\<close>: an error of the read that means "does not
  exist" becomes \<open>yagcl.ErrSourceNotFound\<close>, any other error is returned as it is.
\<close>

definition deferredNotFound :: "ioerror + string \<Rightarrow> error + string" where
  "deferredNotFound r =
     (case r of
        Inl err \<Rightarrow>
          if os_IsNotExist err \<or> errors_Is_ErrNotExist err then Inl ErrSourceNotFound
          else Inl (ErrAcquisition err)
      | Inr data \<Rightarrow> Inr data)"

definition getBytes :: "env \<Rightarrow> jsonSourceImpl \<Rightarrow> error + string" where
  "getBytes e s =
     (if length (bytes s) > 0 then Inr (bytes s)
      else if path s \<noteq> [] then deferredNotFound (ReadFile e (path s))
      else case reader s of
             Some r \<Rightarrow> deferredNotFound r
           | None \<Rightarrow> Inl ErrVerificationMustHaveFailed)"

definition dataSourcesCount :: "jsonSourceImpl \<Rightarrow> nat" where
  "dataSourcesCount s =
     (if path s \<noteq> [] then 1 else 0)
     + (if length (bytes s) > 0 then 1 else 0)
     + (if reader s \<noteq> None then 1 else 0)"

definition verify :: "jsonSourceImpl \<Rightarrow> error option" where
  "verify s =
     (if dataSourcesCount s = 0 then Some ErrNoDataSourceSpecified
      else if dataSourcesCount s > 1 then Some ErrMultipleDataSourcesSpecified
      else None)"

section \<open>The pointer-chain construction\<close>

text \<open>
  The last part of the loop body of \<open>parse\<close> allocates variables with
  \<open>reflect.New\<close> and links them. Allocation needs a store: a heap is the list of the
  variables allocated so far, an address is an index into it, and \<open>reflect.New\<close>
  appends a zero-initialised variable and returns its address. A variable holds its
  zero value, a pointer to another variable, or a concrete value.
\<close>

datatype cell = Zero gotype | Ref nat | Val govalue

type_synonym heap = "cell list"

definition reflect_New :: "heap \<Rightarrow> gotype \<Rightarrow> heap \<times> nat" where
  "reflect_New h t = (h @ [Zero t], length h)"

text \<open>
  The loop \<open>for lastPointer.Elem().Kind() == reflect.Pointer\<close>: the third argument is
  the type of \<open>lastPointer.Elem()\<close>.
\<close>

fun allocPointers :: "heap \<Rightarrow> nat list \<Rightarrow> gotype \<Rightarrow> heap \<times> nat list" where
  "allocPointers h pointers (PointerTo t) =
     (case reflect_New h t of
        (h', lastPointer) \<Rightarrow> allocPointers h' (pointers @ [lastPointer]) t)"
| "allocPointers h pointers t = (h, pointers)"

text \<open>
  The loop \<open>for i := len(pointers) - 2; i >= 0; i--\<close>; the counter of the model is
  \<open>i + 1\<close>.
\<close>

fun linkPointers :: "heap \<Rightarrow> nat list \<Rightarrow> nat \<Rightarrow> heap" where
  "linkPointers h pointers 0 = h"
| "linkPointers h pointers (Suc i) =
     linkPointers (h[pointers ! i := Ref (pointers ! Suc i)]) pointers i"

text \<open>
  The whole construction for a field of type \<open>PointerTo elemType\<close>; the result is the
  heap and \<open>pointers[0]\<close>, which the code assigns to the field. The list \<open>pointers\<close>
  is never empty, so the reads by index are in range.
\<close>

definition buildChain :: "heap \<Rightarrow> gotype \<Rightarrow> govalue \<Rightarrow> heap \<times> nat" where
  "buildChain h elemType parsed =
     (case reflect_New h elemType of
        (h1, lastPointer) \<Rightarrow>
          (case allocPointers h1 [lastPointer] elemType of
             (h2, pointers) \<Rightarrow>
               (let h3 = h2[pointers ! (length pointers - 1) := Val parsed];
                    h4 = linkPointers h3 pointers (length pointers - 1)
                in (h4, pointers ! 0))))"

text \<open>
  Reading a variable of a given type back as a tree value: a pointer is followed, a
  dangling address reads as nil.
\<close>

fun load :: "heap \<Rightarrow> gotype \<Rightarrow> cell \<Rightarrow> govalue" where
  "load h t (Val v) = v"
| "load h t (Zero t') = zeroValue t'"
| "load h (PointerTo t) (Ref a) =
     (if a < length h then VPtr (load h t (h ! a)) else VNil)"
| "load h t (Ref a) = VNil"

text \<open>
  The static indirection depth of a type: the number of pointer layers around its
  non-pointer type.
\<close>

fun indirectionDepth :: "gotype \<Rightarrow> nat" where
  "indirectionDepth (PointerTo t) = Suc (indirectionDepth t)"
| "indirectionDepth t = 0"

text \<open>
  What \<open>fieldValue.Set\<close> stores into a field of type \<open>fieldValueType\<close>: for a
  pointer field the chain built on a fresh heap, read back as a tree; otherwise the
  parsed value itself.
\<close>

definition assignedValue :: "gotype \<Rightarrow> govalue \<Rightarrow> govalue" where
  "assignedValue fieldValueType parsed =
     (case fieldValueType of
        PointerTo elemType \<Rightarrow>
          (case buildChain [] elemType parsed of
             (h, p) \<Rightarrow> load h fieldValueType (Ref p))
      | _ \<Rightarrow> parsed)"

section \<open>The record binder\<close>

definition quote :: char where
  "quote = CHR 0x22"

definition comma :: char where
  "comma = CHR 0x2C"

text \<open>\<open>strings.Split(key, ",")[0]\<close> is the part of \<open>key\<close> before its first comma.\<close>

definition extractJSONKey :: "env \<Rightarrow> structField \<Rightarrow> error + string" where
  "extractJSONKey e structField =
     (let key = Tag_Get (Tag structField) KeyTag in
      if key \<noteq> [] then Inr (takeWhile (\<lambda>c. c \<noteq> comma) key)
      else let key = ExtractFieldKey e structField in
           if key \<noteq> [] then Inr key
           else Inl (MissingKeyError (Name structField)))"

text \<open>
  The head of the loop body, up to the node lookup: the field is skipped
  (\<open>continue\<close>), the call returns an error, or the node is found at a path with its
  raw bytes and coarse type.
\<close>

datatype located = Skip | Abort error | Found "string list" string ValueType

definition locate :: "env \<Rightarrow> string \<Rightarrow> string list \<Rightarrow> structField \<Rightarrow> located" where
  "locate e b parentJsonPath structField =
     (if \<not> IncludeField e structField then Skip
      else case extractJSONKey e structField of
             Inl err \<Rightarrow> Abort err
           | Inr jsonKey \<Rightarrow>
               (let jsonPath = parentJsonPath @ [jsonKey] in
                case Get e b jsonPath of
                  Inl err \<Rightarrow>
                    if err = KeyPathNotFoundError then Skip
                    else Abort (newJsonparserError jsonPath err)
                | Inr (valueBytes, dataType) \<Rightarrow> Found jsonPath valueBytes dataType))"

text \<open>
  The probe for custom decode hooks. The result is an error, \<open>Inr (Some v)\<close> when a
  hook was applied and left \<open>v\<close> in the new variable, or \<open>Inr None\<close> when
  \<open>customUnmarshalApplied\<close> stays false.
\<close>

definition customUnmarshal ::
  "env \<Rightarrow> bool \<Rightarrow> gotype \<Rightarrow> string list \<Rightarrow> string \<Rightarrow> ValueType
     \<Rightarrow> error + govalue option" where
  "customUnmarshal e canInterface newType jsonPath valueBytes dataType =
     (if canInterface then
        (case jsonUnmarshaler e newType of
           Some u \<Rightarrow>
             (let valueBytes' =
                    (if dataType = jsonparser_String then quote # valueBytes @ [quote]
                     else valueBytes)
              in case u valueBytes' of
                   Inl err \<Rightarrow> Inl (newUnmarshalError jsonPath err)
                 | Inr v \<Rightarrow> Inr (Some v))
         | None \<Rightarrow>
             (case textUnmarshaler e newType of
                Some u \<Rightarrow>
                  if dataType = jsonparser_String then
                    (case u valueBytes of
                       Inl err \<Rightarrow> Inl (newUnmarshalError jsonPath err)
                     | Inr v \<Rightarrow> Inr (Some v))
                  else Inr None
              | None \<Rightarrow> Inr None))
      else Inr None)"

text \<open>
  The \<open>default\<close> case of the switch. The result \<open>Inr None\<close> is a decode without
  error that left the interface variable \<open>value\<close> nil.
\<close>

definition defaultDecode ::
  "env \<Rightarrow> gotype \<Rightarrow> string list \<Rightarrow> string \<Rightarrow> error + govalue option" where
  "defaultDecode e fieldType jsonPath valueBytes =
     (case Unmarshal e fieldType valueBytes of
        Inl err \<Rightarrow> Inl (newUnmarshalError jsonPath err)
      | Inr v \<Rightarrow> Inr v)"

text \<open>
  The block of the case \<open>reflect.Int64\<close> before its \<open>fallthrough\<close>: \<open>None\<close> means
  that control falls through to the default case.
\<close>

definition durationDecode ::
  "env \<Rightarrow> structField \<Rightarrow> gotype \<Rightarrow> string \<Rightarrow> ValueType
     \<Rightarrow> (error + govalue option) option" where
  "durationDecode e structField fieldType valueBytes dataType =
     (if dataType = jsonparser_String then
        (case ParseString e valueBytes of
           Inr stringValue \<Rightarrow>
             if AssignableTo fieldType durationType then
               (case ParseDuration e stringValue of
                  Inl errParse \<Rightarrow>
                    Some (Inl (DurationParseError stringValue (Name structField)))
                | Inr d \<Rightarrow> Some (Inr (Some (VInt d))))
             else None
         | Inl err \<Rightarrow> None)
      else None)"

text \<open>The switch on \<open>fieldType.Kind()\<close>, for every kind but \<open>reflect.Struct\<close>.\<close>

definition convertKind ::
  "env \<Rightarrow> structField \<Rightarrow> gotype \<Rightarrow> string list \<Rightarrow> string \<Rightarrow> ValueType
     \<Rightarrow> error + govalue option" where
  "convertKind e structField fieldType jsonPath valueBytes dataType =
     (if Kind fieldType = reflect_String then
        (if dataType \<noteq> jsonparser_String then
           Inl (IncorrectJSONTypeError (Name structField) dataType)
         else case ParseString e valueBytes of
                Inl err \<Rightarrow> Inl (newJsonparserError jsonPath err)
              | Inr s \<Rightarrow> Inr (Some (VString s)))
      else if Kind fieldType = reflect_Complex64 \<or> Kind fieldType = reflect_Complex128
      then Inl (UnsupportedTypeError (Name structField))
      else if Kind fieldType = reflect_Int64 then
        (case durationDecode e structField fieldType valueBytes dataType of
           Some r \<Rightarrow> r
         | None \<Rightarrow> defaultDecode e fieldType jsonPath valueBytes)
      else defaultDecode e fieldType jsonPath valueBytes)"

text \<open>
  How one pass through the loop body ends: the call returns with a flag and an error,
  or the loop goes on with a flag. Both carry the value the field holds afterwards.
\<close>

datatype outcome =
    Return (outFlag: bool) error (outStored: govalue)
  | Continue (outFlag: bool) (outStored: govalue)

text \<open>
  The end of the loop body, from \<open>hasAnyFieldBeenSet = true\<close> on. Converting a nil
  interface panics, and so does \<open>Set\<close> on a field reached through an unexported one.
\<close>

definition setField :: "bool \<Rightarrow> gotype \<Rightarrow> govalue option \<Rightarrow> govalue \<Rightarrow> outcome" where
  "setField fieldRO fieldValueType val stored =
     (case val of
        None \<Rightarrow> Return True Panic stored
      | Some parsed \<Rightarrow>
          if fieldRO then Return True Panic stored
          else Continue True (assignedValue fieldValueType parsed))"

text \<open>
  The struct the recursive call works on, and whether it is read-only: a fresh zero
  struct when the field is zero, otherwise the field itself, dereferenced once.
\<close>

definition structTarget :: "bool \<Rightarrow> gotype \<Rightarrow> govalue \<Rightarrow> govalue \<times> bool" where
  "structTarget fieldRO fieldType fieldValue =
     (if IsZero fieldValue then (zeroValue fieldType, False)
      else (Indirect fieldValue, fieldRO))"

text \<open>
  What the field holds after the recursive call has written into \<open>structValue\<close>: the
  writes reach the field only when the call worked on the field itself.
\<close>

definition writeThrough :: "govalue \<Rightarrow> govalue \<Rightarrow> govalue" where
  "writeThrough fieldValue structValue =
     (if IsZero fieldValue then fieldValue
      else case fieldValue of VPtr v \<Rightarrow> VPtr structValue | _ \<Rightarrow> structValue)"

text \<open>
  The fields of the struct type under the pointers of a field's type are smaller than
  the field: the measure that makes the recursion into nested structs end.
\<close>

lemma size_extractNonPointerFieldType: "size (extractNonPointerFieldType t) \<le> size t"
  by (induction t rule: extractNonPointerFieldType.induct) auto

lemma size_struct_fields:
  assumes "extractNonPointerFieldType (Type f) = StructOf n sfs"
  shows "size_list size sfs < size f"
proof -
  have "size (StructOf n sfs) \<le> size (Type f)"
    using size_extractNonPointerFieldType[of "Type f"] assms by simp
  moreover have "size (Type f) < size f"
    by (cases f) simp
  ultimately show ?thesis by simp
qed

text \<open>
  The loop of \<open>parse\<close> over the fields of a struct type and the values they hold
  (\<open>parseFields\<close>), and its body for one field (\<open>bindField\<close>). The flag \<open>ro\<close>
  says that the struct was reached through an unexported field. The loop returns the
  flag \<open>hasAnyFieldBeenSet\<close>, the error if any, and the values the fields hold when
  the call returns. A struct value with fewer fields than its type does not exist in
  Go; the model gives it the panic of an access out of range.
\<close>

function parseFields ::
  "env \<Rightarrow> string \<Rightarrow> string list \<Rightarrow> bool \<Rightarrow> structField list \<Rightarrow> govalue list \<Rightarrow> bool
     \<Rightarrow> bool \<times> error option \<times> govalue list"
and bindField ::
  "env \<Rightarrow> string \<Rightarrow> string list \<Rightarrow> bool \<Rightarrow> structField \<Rightarrow> govalue \<Rightarrow> bool \<Rightarrow> outcome"
where
  "parseFields e b parentJsonPath ro [] vs hasAnyFieldBeenSet =
     (hasAnyFieldBeenSet, None, vs)"
| "parseFields e b parentJsonPath ro (structField # fs) [] hasAnyFieldBeenSet =
     (hasAnyFieldBeenSet, Some Panic, [])"
| "parseFields e b parentJsonPath ro (structField # fs) (fieldValue # vs)
       hasAnyFieldBeenSet =
     (case bindField e b parentJsonPath ro structField fieldValue hasAnyFieldBeenSet of
        Return hasAny err stored \<Rightarrow> (hasAny, Some err, stored # vs)
      | Continue hasAny stored \<Rightarrow>
          (case parseFields e b parentJsonPath ro fs vs hasAny of
             (hasAny', err, vs') \<Rightarrow> (hasAny', err, stored # vs')))"
| "bindField e b parentJsonPath ro structField fieldValue hasAnyFieldBeenSet =
     (case locate e b parentJsonPath structField of
        Skip \<Rightarrow> Continue hasAnyFieldBeenSet fieldValue
      | Abort err \<Rightarrow> Return hasAnyFieldBeenSet err fieldValue
      | Found jsonPath valueBytes dataType \<Rightarrow>
          (let fieldType = extractNonPointerFieldType (Type structField);
               fieldRO = (ro \<or> \<not> Exported structField)
           in case customUnmarshal e (\<not> fieldRO) fieldType jsonPath valueBytes
                     dataType of
                Inl err \<Rightarrow> Return hasAnyFieldBeenSet err fieldValue
              | Inr (Some v) \<Rightarrow>
                  setField fieldRO (Type structField) (Some v) fieldValue
              | Inr None \<Rightarrow>
                  (case fieldType of
                     StructOf n sfs \<Rightarrow>
                       (case structTarget fieldRO fieldType fieldValue of
                          (VStruct svs, subRO) \<Rightarrow>
                            (case parseFields e b jsonPath subRO sfs svs False of
                               (hasAnySubStructFieldBeenSet, err, svs') \<Rightarrow>
                                 (let hasAny = (hasAnyFieldBeenSet
                                          \<or> hasAnySubStructFieldBeenSet);
                                      stored = writeThrough fieldValue (VStruct svs')
                                  in case err of
                                       Some err' \<Rightarrow> Return hasAny err' stored
                                     | None \<Rightarrow>
                                         if \<not> hasAnySubStructFieldBeenSet
                                         then Continue hasAny stored
                                         else if subRO
                                         then Return hasAny Panic stored
                                         else setField fieldRO (Type structField)
                                                (Some (VStruct svs')) stored))
                        | (_, subRO) \<Rightarrow> Return hasAnyFieldBeenSet Panic fieldValue)
                   | _ \<Rightarrow>
                       (case convertKind e structField fieldType jsonPath valueBytes
                               dataType of
                          Inl err \<Rightarrow> Return hasAnyFieldBeenSet err fieldValue
                        | Inr v \<Rightarrow>
                            setField fieldRO (Type structField) v fieldValue))))"
  by pat_completeness auto

termination
proof (relation "measure (\<lambda>x. case x of
          Inl (e, b, p, ro, fs, vs, a) \<Rightarrow> size_list size fs
        | Inr (e, b, p, ro, f, v, a) \<Rightarrow> size f)", goal_cases)
  case 1
  show ?case by simp
next
  case 2
  show ?case by simp
next
  case 3
  show ?case by simp
next
  case (4 e b p ro structField fieldValue a jsonPath valueBytes dataType)
  then show ?case
    using size_struct_fields[of structField] by (auto dest!: sym[of "StructOf _ _"])
qed

text \<open>
  The equations of the loop step and of the loop body are unfolded only where a proof
  asks for them.
\<close>

declare parseFields.simps(3) [simp del]

declare bindField.simps [simp del]

text \<open>
  \<open>parse\<close> on a \<open>reflect.Value\<close> of a given type: \<open>NumField\<close> panics unless the
  value is a struct.
\<close>

definition parse ::
  "env \<Rightarrow> string \<Rightarrow> string list \<Rightarrow> bool \<Rightarrow> gotype \<Rightarrow> govalue
     \<Rightarrow> bool \<times> error option \<times> govalue" where
  "parse e b parentJsonPath ro structType structValue =
     (case (structType, structValue) of
        (StructOf n fs, VStruct vs) \<Rightarrow>
          (case parseFields e b parentJsonPath ro fs vs False of
             (hasAnyFieldBeenSet, err, vs') \<Rightarrow> (hasAnyFieldBeenSet, err, VStruct vs'))
      | _ \<Rightarrow> (False, Some Panic, structValue))"

text \<open>
  \<open>Parse\<close>. The argument \<open>configurationStruct\<close> is a pointer to a struct, as
  \<open>yagcl\<close> passes it; the model takes the type and the value of the struct it points
  to and returns, with the two results of the code, the value it holds afterwards.
\<close>

definition Parse ::
  "env \<Rightarrow> jsonSourceImpl \<Rightarrow> gotype \<Rightarrow> govalue \<Rightarrow> bool \<times> error option \<times> govalue" where
  "Parse e s structType configurationStruct =
     (case verify s of
        Some err \<Rightarrow> (False, Some err, configurationStruct)
      | None \<Rightarrow>
          (case getBytes e s of
             Inl err \<Rightarrow>
               if \<not> must s \<and> err = ErrSourceNotFound
               then (False, None, configurationStruct)
               else (False, Some err, configurationStruct)
           | Inr data \<Rightarrow>
               (case parse e data [] False structType configurationStruct of
                  (hasAnyFieldBeenSet, err, structValue) \<Rightarrow>
                    (err = None, err, structValue))))"

section \<open>An instance of the collaborators\<close>

text \<open>
  To run the model on the inputs of the package's tests, the parameters get concrete
  values: a string unescaper for backslash escapes, decoders
  for decimal integers, booleans and durations written as a decimal number and a unit,
  decode hooks like the ones of the tests, and a node locator given by a table of the
  test documents and the nodes at their paths.
\<close>

definition backslash :: char where
  "backslash = CHR 0x5C"

fun unescape :: "string \<Rightarrow> string" where
  "unescape (c # d # cs) =
     (if c = backslash then (if d = CHR ''n'' then CHR 0x0A else d) # unescape cs
      else c # unescape (d # cs))"
| "unescape cs = cs"

definition digitValue :: "char \<Rightarrow> nat option" where
  "digitValue c = map_of (zip ''0123456789'' [0, 1, 2, 3, 4, 5, 6, 7, 8, 9]) c"

fun decimal :: "nat \<Rightarrow> string \<Rightarrow> nat option" where
  "decimal acc [] = Some acc"
| "decimal acc (c # cs) =
     (case digitValue c of None \<Rightarrow> None | Some d \<Rightarrow> decimal (10 * acc + d) cs)"

definition parseInt :: "string \<Rightarrow> string + int" where
  "parseInt s =
     (if s = [] then Inl ''invalid syntax''
      else case decimal 0 s of
             None \<Rightarrow> Inl ''invalid syntax''
           | Some n \<Rightarrow> Inr (int n))"

definition Second :: int where
  "Second = 1000000000"

definition unitMap :: "(string \<times> int) list" where
  "unitMap = [(''ns'', 1), (''us'', 1000), (''ms'', 1000000), (''s'', Second),
      (''m'', 60 * Second), (''h'', 3600 * Second)]"

definition simpleParseDuration :: "string \<Rightarrow> string + int" where
  "simpleParseDuration s =
     (let ds = takeWhile (\<lambda>c. digitValue c \<noteq> None) s;
          u = dropWhile (\<lambda>c. digitValue c \<noteq> None) s
      in case (parseInt ds, map_of unitMap u) of
           (Inr n, Some unit) \<Rightarrow> Inr (n * unit)
         | _ \<Rightarrow> Inl ''time: invalid duration'')"

definition simpleUnmarshal :: "gotype \<Rightarrow> string \<Rightarrow> string + govalue option" where
  "simpleUnmarshal t data =
     (if data = ''null'' then Inr None
      else if Kind t \<in> set integerKinds then
        (case parseInt data of Inl err \<Rightarrow> Inl err | Inr n \<Rightarrow> Inr (Some (VInt n)))
      else if Kind t = reflect_Bool then
        (if data = ''true'' then Inr (Some (VBool True))
         else if data = ''false'' then Inr (Some (VBool False))
         else Inl ''cannot unmarshal into bool'')
      else Inr (Some (VOther data)))"


definition upperTable :: "(char \<times> char) list" where
  "upperTable = zip ''abcdefghijklmnopqrstuvwxyz'' ''ABCDEFGHIJKLMNOPQRSTUVWXYZ''"

definition toUpper :: "string \<Rightarrow> string" where
  "toUpper s = map (\<lambda>c. case map_of upperTable c of None \<Rightarrow> c | Some u \<Rightarrow> u) s"

definition docEmpty :: string where
  \<open>docEmpty = ''{}''\<close>

definition docDuration :: string where
  \<open>docDuration = ''{"field_a": "10s"}''\<close>

definition docDurationInvalid :: string where
  \<open>docDurationInvalid = ''{"field_a": "ain't valid"}''\<close>

definition docNumber :: string where
  \<open>docNumber = ''{"field_a": 10}''\<close>

definition docUnquoted :: string where
  \<open>docUnquoted = ''{"field_b": text}''\<close>

definition docNested :: string where
  \<open>docNested = ''{"field_a": "content a", "field_b": {"field_c": "content c"}}''\<close>

definition docNestedEmpty :: string where
  \<open>docNestedEmpty = ''{"field_a": "content a", "field_b": {}}''\<close>

definition docNotAnInt :: string where
  \<open>docNotAnInt = ''{"field_a": "notanint"}''\<close>

definition docEscaped :: string where
  \<open>docEscaped = ''{"field_a": "a'' @ [backslash] @ ''"b"}''\<close>

definition docIrrelevant :: string where
  \<open>docIrrelevant = ''{"field_a": "irrelevant"}''\<close>

definition nodes :: "((string \<times> string list) \<times> (jperror + string \<times> ValueType)) list" where
  \<open>nodes =
     [((docDuration, [''field_a'']), Inr (''10s'', jsonparser_String)),
      ((docDurationInvalid, [''field_a'']), Inr (''ain't valid'', jsonparser_String)),
      ((docNumber, [''field_a'']), Inr (''10'', jsonparser_Number)),
      ((docUnquoted, [''field_b'']), Inl (OtherJsonparserError ''Unknown value type'')),
      ((docNested, [''field_a'']), Inr (''content a'', jsonparser_String)),
      ((docNested, [''field_b'']), Inr (''{"field_c": "content c"}'', jsonparser_Object)),
      ((docNested, [''field_b'', ''field_c'']), Inr (''content c'', jsonparser_String)),
      ((docNestedEmpty, [''field_a'']), Inr (''content a'', jsonparser_String)),
      ((docNestedEmpty, [''field_b'']), Inr (''{}'', jsonparser_Object)),
      ((docNotAnInt, [''field_a'']), Inr (''notanint'', jsonparser_String)),
      ((docEscaped, [''field_a'']), Inr (''a'' @ [backslash] @ ''"b'', jsonparser_String)),
      ((docIrrelevant, [''field_a'']), Inr (''irrelevant'', jsonparser_String))]\<close>

definition tableGet :: "string \<Rightarrow> string list \<Rightarrow> jperror + string \<times> ValueType" where
  "tableGet data keys =
     (case map_of nodes (data, keys) of None \<Rightarrow> Inl KeyPathNotFoundError | Some r \<Rightarrow> r)"

definition jsonHooks :: "(string \<times> (string \<Rightarrow> string + govalue)) list" where
  "jsonHooks =
     [(''intCustomJSONUnmarshalable'',
       \<lambda>data. case parseInt data of Inl err \<Rightarrow> Inl err | Inr i \<Rightarrow> Inr (VInt i)),
      (''rawJSON'', \<lambda>data. Inr (VString data))]"

definition textHooks :: "(string \<times> (string \<Rightarrow> string + govalue)) list" where
  "textHooks =
     [(''intCustomTextUnmarshalable'',
       \<lambda>data. case parseInt data of Inl err \<Rightarrow> Inl err | Inr i \<Rightarrow> Inr (VInt i)),
      (''customTextUnmarshalable'', \<lambda>data. Inr (VString (toUpper data)))]"

fun typeName :: "gotype \<Rightarrow> string" where
  "typeName (Named n k) = n"
| "typeName (StructOf n fs) = n"
| "typeName (PointerTo t) = CHR ''*'' # typeName t"

definition testEnv :: env where
  "testEnv =
     \<lparr>ReadFile = (\<lambda>p. if p = ''./test.json'' then Inr docDuration else Inl NotExist),
      IncludeField = (\<lambda>f. Exported f \<and> Tag_Get (Tag f) ''ignore'' \<noteq> ''true''),
      ExtractFieldKey = (\<lambda>f. Tag_Get (Tag f) ''key''),
      Get = tableGet,
      ParseString = (\<lambda>s. Inr (unescape s)),
      jsonUnmarshaler = (\<lambda>t. map_of jsonHooks (typeName t)),
      textUnmarshaler = (\<lambda>t. map_of textHooks (typeName t)),
      ParseDuration = simpleParseDuration,
      Unmarshal = simpleUnmarshal\<rparr>"

definition keyed :: "string \<Rightarrow> string \<Rightarrow> gotype \<Rightarrow> structField" where
  "keyed name k t = StructField name [(''key'', k)] True t"

text \<open>The struct types of the tests.\<close>

definition stringType :: gotype where
  "stringType = Named ''string'' reflect_String"

definition uintType :: gotype where
  "uintType = Named ''uint'' reflect_Uint"

definition int64Type :: gotype where
  "int64Type = Named ''int64'' reflect_Int64"

definition complex64Type :: gotype where
  "complex64Type = Named ''complex64'' reflect_Complex64"

definition intJSONType :: gotype where
  "intJSONType = Named ''intCustomJSONUnmarshalable'' reflect_Int64"

definition textHookType :: gotype where
  "textHookType = Named ''customTextUnmarshalable'' reflect_String"

definition fieldA :: "gotype \<Rightarrow> structField" where
  "fieldA t = keyed ''FieldA'' ''field_a'' t"

definition fieldBjson :: structField where
  "fieldBjson = StructField ''FieldB'' [(''json'', ''field_b'')] True stringType"

definition fieldC :: structField where
  "fieldC = keyed ''FieldC'' ''field_c'' stringType"

definition fieldB :: structField where
  "fieldB = keyed ''FieldB'' ''field_b'' (PointerTo (StructOf ''substruct'' [fieldC]))"

definition configuration :: "structField list \<Rightarrow> gotype" where
  "configuration fs = StructOf ''configuration'' fs"

section \<open>Properties of the binder\<close>

subsection \<open>A call that reports no field set has written nothing\<close>

text \<open>
  The flag \<open>hasAnyFieldBeenSet\<close> only ever grows, and every write into a field is
  preceded by setting it. So a call of the loop, or one pass through its body, that
  ends with the flag false has left every value as it found it, also when it worked
  directly on a struct the parent already held.
\<close>

lemma writeThrough_same:
  "structTarget r t v = (sv, r') \<Longrightarrow> writeThrough v sv = v"
  by (cases v) (auto simp add: structTarget_def writeThrough_def split: if_splits)

lemma setField_outFlag: "outFlag (setField r t x st)"
  by (simp add: setField_def split: option.splits)

lemma parseFields_bindField_quiet:
  shows "fst (parseFields e b p ro fs vs a) = False \<Longrightarrow>
           a = False \<and> snd (snd (parseFields e b p ro fs vs a)) = vs"
    and "outFlag (bindField e b p ro f v a) = False \<Longrightarrow>
           a = False \<and> outStored (bindField e b p ro f v a) = v"
proof (induction e b p ro fs vs a and e b p ro f v a rule: parseFields_bindField.induct)
  case (1 e b parentJsonPath ro vs hasAnyFieldBeenSet)
  then show ?case by simp
next
  case (2 e b parentJsonPath ro structField fs hasAnyFieldBeenSet)
  then show ?case by simp
next
  case (3 e b parentJsonPath ro structField fs fieldValue vs hasAnyFieldBeenSet)
  show ?case
  proof (cases "bindField e b parentJsonPath ro structField fieldValue hasAnyFieldBeenSet")
    case (Return h err st)
    with 3 show ?thesis by (simp add: parseFields.simps(3))
  next
    case (Continue h st)
    with 3 show ?thesis by (auto simp add: parseFields.simps(3) split: prod.splits)
  qed
next
  case (4 e b parentJsonPath ro structField fieldValue hasAnyFieldBeenSet)
  show ?case
  proof (cases "locate e b parentJsonPath structField")
    case Skip
    with 4(2) show ?thesis by (simp add: bindField.simps)
  next
    case (Abort err)
    with 4(2) show ?thesis by (simp add: bindField.simps)
  next
    case (Found jsonPath valueBytes dataType)
    let ?t = "extractNonPointerFieldType (Type structField)"
    let ?r = "ro \<or> \<not> Exported structField"
    show ?thesis
    proof (cases "customUnmarshal e (\<not> ?r) ?t jsonPath valueBytes dataType")
      case (Inl err)
      with Found 4(2) show ?thesis by (simp add: bindField.simps)
    next
      case (Inr x)
      show ?thesis
      proof (cases x)
        case (Some val)
        with Found Inr 4(2) show ?thesis
          using setField_outFlag[of ?r "Type structField" "Some val" fieldValue]
          by (simp add: bindField.simps)
      next
        case None
        show ?thesis
        proof (cases "\<exists>n sfs. ?t = StructOf n sfs")
          case False
          then have "outFlag (bindField e b parentJsonPath ro structField fieldValue hasAnyFieldBeenSet)
                     \<or> bindField e b parentJsonPath ro structField fieldValue hasAnyFieldBeenSet
                        = Return hasAnyFieldBeenSet (projl (convertKind e structField ?t jsonPath valueBytes dataType)) fieldValue"
            using Found Inr None
            by (cases ?t; cases "convertKind e structField ?t jsonPath valueBytes dataType")
               (simp_all add: bindField.simps setField_outFlag)
          with 4(2) show ?thesis by auto
        next
          case True
          then obtain n sfs where t: "?t = StructOf n sfs" by blast
          obtain sv subRO where st: "structTarget ?r ?t fieldValue = (sv, subRO)"
            by (cases "structTarget ?r ?t fieldValue")
          show ?thesis
          proof (cases "\<exists>svs. sv = VStruct svs")
            case False
            then have "bindField e b parentJsonPath ro structField fieldValue hasAnyFieldBeenSet
                        = Return hasAnyFieldBeenSet Panic fieldValue"
              using Found Inr None t st by (cases sv) (simp_all add: bindField.simps)
            with 4(2) show ?thesis by simp
          next
            case True
            then obtain svs where sv: "sv = VStruct svs" by blast
            obtain sub err svs' where r: "parseFields e b jsonPath subRO sfs svs False = (sub, err, svs')"
              by (cases "parseFields e b jsonPath subRO sfs svs False")
            have ih: "\<not> sub \<Longrightarrow> svs' = svs"
              using 4(1)[OF Found refl refl Inr None t st[symmetric] sv] r by simp
            have w: "writeThrough fieldValue (VStruct svs) = fieldValue"
              using writeThrough_same[OF st] sv by simp
            show ?thesis
              using 4(2) Found Inr None t st sv r ih w
                setField_outFlag[of ?r "Type structField" "Some (VStruct svs')"
                  "writeThrough fieldValue (VStruct svs')"]
              by (cases err; cases sub) (auto simp add: bindField.simps Let_def split: if_splits)
          qed
        qed
      qed
    qed
  qed
qed

subsection \<open>The pointer chain on the heap\<close>

text \<open>
  The allocation loop appends one variable per pointer layer and records their
  addresses in order; the linking loop makes each of them point to the next. Read
  back from the first address, the chain is the parsed value under as many pointers
  as the field type has layers.
\<close>

lemma allocPointers_result:
  "allocPointers h ps t = (h', ps') \<Longrightarrow>
     length h' = length h + indirectionDepth t
     \<and> take (length h) h' = h
     \<and> ps' = ps @ [length h ..< length h + indirectionDepth t]"
proof (induction h ps t arbitrary: h' ps' rule: allocPointers.induct)
  case (1 h pointers t)
  from "1.prems" have r: "allocPointers (h @ [Zero t]) (pointers @ [length h]) t = (h', ps')"
    by (simp add: reflect_New_def)
  from "1.IH"[OF _ r] have
    l: "length h' = length (h @ [Zero t]) + indirectionDepth t"
    and tk: "take (length (h @ [Zero t])) h' = h @ [Zero t]"
    and p: "ps' = (pointers @ [length h]) @ [length (h @ [Zero t]) ..< length (h @ [Zero t]) + indirectionDepth t]"
    by (simp_all add: reflect_New_def)
  have "take (length h) (take (length (h @ [Zero t])) h') = take (length h) (h @ [Zero t])"
    using tk by simp
  then have "take (length h) h' = h" by (simp add: min_def)
  moreover have "[length h ..< length h + Suc (indirectionDepth t)]
      = length h # [Suc (length h) ..< Suc (length h) + indirectionDepth t]"
    by (simp add: upt_conv_Cons)
  ultimately show ?case using l p by simp
qed simp_all

lemma linkPointers_length: "length (linkPointers h ps k) = length h"
  by (induction h ps k rule: linkPointers.induct) simp_all

lemma linkPointers_nth:
  assumes "\<forall>i \<le> k. ps ! i = n + i" and "n + k < length h" and "j < length h"
  shows "linkPointers h ps k ! j =
           (if n \<le> j \<and> j < n + k then Ref (Suc j) else h ! j)"
  using assms
proof (induction h ps k rule: linkPointers.induct)
  case (1 h pointers)
  then show ?case by auto
next
  case (2 h pointers i)
  have a: "pointers ! i = n + i" and b: "pointers ! Suc i = n + Suc i"
    using "2.prems"(1) by auto
  have "linkPointers (h[n + i := Ref (n + Suc i)]) pointers i ! j =
          (if n \<le> j \<and> j < n + i then Ref (Suc j) else h[n + i := Ref (n + Suc i)] ! j)"
    using "2.IH"[unfolded a b] "2.prems" by simp
  then show ?case
    using a b "2.prems" by (auto simp add: nth_list_update)
qed

lemma buildChain_heap:
  assumes "buildChain h t x = (h', p)"
  shows "p = length h
       \<and> length h' = length h + Suc (indirectionDepth t)
       \<and> take (length h) h' = h
       \<and> (\<forall>i < indirectionDepth t. h' ! (length h + i) = Ref (length h + Suc i))
       \<and> h' ! (length h + indirectionDepth t) = Val x"
proof -
  let ?n = "length h"
  let ?d = "indirectionDepth t"
  obtain h2 ps where al: "allocPointers (h @ [Zero t]) [?n] t = (h2, ps)"
    by (cases "allocPointers (h @ [Zero t]) [?n] t")
  from allocPointers_result[OF al] have
    l2: "length h2 = Suc ?n + ?d"
    and t2: "take (Suc ?n) h2 = h @ [Zero t]"
    and ps: "ps = [?n] @ [Suc ?n ..< Suc ?n + ?d]"
    by simp_all
  have ps': "ps = [?n ..< ?n + Suc ?d]"
    using ps by (simp add: upt_conv_Cons)
  have lps: "length ps = Suc ?d" using ps' by simp
  have nth: "\<forall>i \<le> ?d. ps ! i = ?n + i"
    using ps' by (metis add_Suc_right le_imp_less_Suc nat_add_left_cancel_less nth_upt)
  let ?h3 = "h2[ps ! ?d := Val x]"
  have h3: "?h3 = h2[?n + ?d := Val x]" using nth by simp
  have res: "h' = linkPointers ?h3 ps ?d" "p = ps ! 0"
    using assms al lps by (simp_all add: buildChain_def reflect_New_def Let_def)
  have len: "length h' = ?n + Suc ?d"
    using res l2 by (simp add: linkPointers_length)
  have cell: "\<And>j. j < ?n + Suc ?d \<Longrightarrow>
      h' ! j = (if ?n \<le> j \<and> j < ?n + ?d then Ref (Suc j) else ?h3 ! j)"
    using linkPointers_nth[OF nth, of ?h3] res l2 by simp
  have old: "take ?n h' = h"
  proof (rule nth_equalityI)
    show "length (take ?n h') = length h" using len by simp
  next
    fix i assume "i < length (take ?n h')"
    then have i: "i < ?n" by simp
    then have "h' ! i = h2 ! i" using cell[of i] h3 by simp
    also have "\<dots> = take (Suc ?n) h2 ! i" using i by simp
    also have "\<dots> = h ! i" using t2 i by (simp add: nth_append)
    finally show "take ?n h' ! i = h ! i" using i by simp
  qed
  have links: "\<forall>i < ?d. h' ! (?n + i) = Ref (?n + Suc i)"
    using cell by simp
  have inner: "h' ! (?n + ?d) = Val x"
    using cell[of "?n + ?d"] h3 l2 by simp
  show ?thesis
    using res(2) nth len old links inner by simp
qed

lemma load_chain:
  assumes "\<forall>i < k. h ! (n + i) = Ref (n + Suc i)" and "h ! (n + k) = Val x"
    and "n + k < length h"
  shows "load h ((PointerTo ^^ Suc k) t) (Ref n) = (VPtr ^^ Suc k) x"
  using assms
proof (induction k arbitrary: n)
  case 0
  then show ?case by simp
next
  case (Suc k)
  have first: "h ! n = Ref (Suc n)" using Suc.prems(1) by force
  have rest: "\<forall>i < k. h ! (Suc n + i) = Ref (Suc n + Suc i)"
  proof (intro allI impI)
    fix i assume "i < k"
    then have "h ! (n + Suc i) = Ref (n + Suc (Suc i))" using Suc.prems(1) by blast
    then show "h ! (Suc n + i) = Ref (Suc n + Suc i)" by simp
  qed
  have "load h ((PointerTo ^^ Suc k) t) (Ref (Suc n)) = (VPtr ^^ Suc k) x"
    using Suc.IH[OF rest] Suc.prems(2,3) by simp
  moreover have "load h ((PointerTo ^^ Suc (Suc k)) t) (Ref n)
      = VPtr (load h ((PointerTo ^^ Suc k) t) (h ! n))"
    using Suc.prems(3) by simp
  ultimately show ?case using first by simp
qed

lemma pointer_type_shape:
  "t = (PointerTo ^^ indirectionDepth t) (extractNonPointerFieldType t)"
  by (induction t rule: extractNonPointerFieldType.induct) (simp_all add: funpow_swap1)

lemma assignedValue_chain:
  "assignedValue t x = (VPtr ^^ indirectionDepth t) x"
proof (cases t)
  case (PointerTo u)
  obtain h' p where b: "buildChain [] u x = (h', p)"
    by (cases "buildChain [] u x")
  from buildChain_heap[OF b] have
    p: "p = 0" and len: "length h' = Suc (indirectionDepth u)"
    and links: "\<forall>i < indirectionDepth u. h' ! (0 + i) = Ref (0 + Suc i)"
    and inner: "h' ! (0 + indirectionDepth u) = Val x"
    by simp_all
  have e1: "load h' ((PointerTo ^^ Suc (indirectionDepth u)) (extractNonPointerFieldType u)) (Ref 0)
          = (VPtr ^^ Suc (indirectionDepth u)) x"
    using load_chain[OF links inner] len by simp
  have e2: "(PointerTo ^^ Suc (indirectionDepth u)) (extractNonPointerFieldType u) = t"
    using pointer_type_shape[of t] PointerTo by simp
  have "load h' t (Ref 0) = (VPtr ^^ Suc (indirectionDepth u)) x"
    using e1 by (simp only: e2)
  then show ?thesis
    using PointerTo b p by (simp add: assignedValue_def)
qed (simp_all add: assignedValue_def)

section \<open>The claims of the specification\<close>

text \<open>Unfolding the instance of the collaborators and the struct types of the tests.\<close>

lemmas instance_defs = testEnv_def tableGet_def nodes_def keyed_def fieldA_def stringType_def
  configuration_def durationType_def
  docEmpty_def docDuration_def docDurationInvalid_def docNumber_def docUnquoted_def
  docNested_def docNestedEmpty_def docNotAnInt_def docEscaped_def docIrrelevant_def
  Tag_Get_def KeyTag_def extractJSONKey_def locate_def jsonHooks_def textHooks_def comma_def

text \<open>
  Claim C1, as the code has it. \<open>Parse\<close> discards the flag of the binder
  (\<open>_, err = s.parse(...)\<close>) and returns \<open>err == nil\<close>: for a correctly configured
  source whose bytes could be acquired, the boolean result is true exactly when the
  binder returned no error, whether or not any field was assigned; the error returned
  is the binder's, so it is nil on success.
\<close>

theorem Parse_reports_absence_of_error:
  assumes "verify s = None" and "getBytes e s = Inr data"
  shows "Parse e s t target =
           (case parse e data [] False t target of
              (hasAnyFieldBeenSet, err, target') \<Rightarrow> (err = None, err, target'))
       \<and> (fst (Parse e s t target) \<longleftrightarrow> fst (snd (parse e data [] False t target)) = None)"
  using assms by (simp add: Parse_def split: prod.splits)

text \<open>
  The amended claim C1 at the document \<open>{}\<close> and a record with one string field keyed
  \<open>field_a\<close>.
\<close>

theorem Parse_reports_absence_of_error_witness:
  "verify (Bytes docEmpty Source) = None
   \<and> getBytes testEnv (Bytes docEmpty Source) = Inr docEmpty
   \<and> Parse testEnv (Bytes docEmpty Source) (configuration [fieldA stringType])
         (VStruct [VString []])
       = (True, None, VStruct [VString []])"
proof -
  have v: "verify (Bytes docEmpty Source) = None"
    by (simp add: verify_def dataSourcesCount_def Bytes_def Source_def docEmpty_def)
  have g: "getBytes testEnv (Bytes docEmpty Source) = Inr docEmpty"
    by (simp add: getBytes_def Bytes_def Source_def docEmpty_def)
  have r: "parse testEnv docEmpty [] False (configuration [fieldA stringType])
             (VStruct [VString []]) = (False, None, VStruct [VString []])"
    by code_simp
  show ?thesis
    using Parse_reports_absence_of_error[OF v g, of "configuration [fieldA stringType]"
        "VStruct [VString []]"] v g r
    by simp
qed

text \<open>
  Claim C1 as stated fails at that input: the binder assigns no field and reports
  \<open>hasAnyFieldBeenSet = false\<close>, the record is unchanged, and \<open>Parse\<close> returns true.
\<close>

theorem Parse_ignores_anyFieldSet_counterexample:
  "verify (Bytes docEmpty Source) = None
   \<and> parse testEnv docEmpty [] False (configuration [fieldA stringType]) (VStruct [VString []])
       = (False, None, VStruct [VString []])
   \<and> Parse testEnv (Bytes docEmpty Source) (configuration [fieldA stringType])
         (VStruct [VString []])
       = (True, None, VStruct [VString []])"
  by code_simp

text \<open>
  Claim C2. Take a field that is included and exported, whose node is found, to which
  no custom hook is applied and whose stripped type is a struct, and let the recursive
  call on its struct return without error, reporting \<open>sub\<close>. If \<open>sub\<close> is true the
  result of the call is assigned to the field (under the pointers of the field type) and
  the flag of the enclosing call becomes true. If \<open>sub\<close> is false the field holds what
  it held before, the flag of the enclosing call is what it was, and the loop goes on
  with the next field.
\<close>

theorem nested_record_attached_iff_set:
  assumes "locate e b p f = Found jsonPath valueBytes dataType"
    and "\<not> ro" and "Exported f"
    and "customUnmarshal e True (extractNonPointerFieldType (Type f)) jsonPath valueBytes
           dataType = Inr None"
    and "extractNonPointerFieldType (Type f) = StructOf n sfs"
    and "structTarget False (StructOf n sfs) v = (VStruct svs, subRO)"
    and "parseFields e b jsonPath subRO sfs svs False = (sub, None, svs')"
  shows "(sub \<longrightarrow>
            bindField e b p ro f v a = Continue True (assignedValue (Type f) (VStruct svs')))
       \<and> (\<not> sub \<longrightarrow>
            bindField e b p ro f v a = Continue a v
          \<and> parseFields e b p ro (f # fs) (v # vs) a =
              (case parseFields e b p ro fs vs a of (a', err, vs') \<Rightarrow> (a', err, v # vs')))"
proof -
  have ro: "\<not> subRO"
    using assms(6) by (auto simp add: structTarget_def split: if_splits)
  have same: "\<not> sub \<Longrightarrow> svs' = svs"
    using parseFields_bindField_quiet(1)[of e b jsonPath subRO sfs svs False] assms(7) by simp
  have w: "writeThrough v (VStruct svs) = v"
    using writeThrough_same[OF assms(6)] .
  have b: "bindField e b p ro f v a =
             (if \<not> sub then Continue a (writeThrough v (VStruct svs'))
              else setField False (Type f) (Some (VStruct svs')) (writeThrough v (VStruct svs')))"
    using assms ro by (simp add: bindField.simps)
  show ?thesis
    using b same w by (auto simp add: parseFields.simps(3) setField_def)
qed

text \<open>
  Claim C2 at a field of type pointer to \<open>substruct\<close>. When the field is nil: with
  the document \<open>{"field_a": "content a", "field_b": {}}\<close> the recursive call sets
  nothing and the field stays nil; with
  \<open>{"field_a": "content a", "field_b": {"field_c": "content c"}}\<close> it sets
  \<open>FieldC\<close> and the field points to the new struct. When the field already points to
  a struct, the recursive call works on that struct, and with the first document the
  field keeps it as it was.
\<close>

theorem nested_record_attached_iff_set_witness:
  \<open>locate testEnv docNestedEmpty [] fieldB = Found [''field_b''] ''{}'' jsonparser_Object
   \<and> Exported fieldB
   \<and> extractNonPointerFieldType (Type fieldB) = StructOf ''substruct'' [fieldC]
   \<and> structTarget False (StructOf ''substruct'' [fieldC]) VNil = (VStruct [VString []], False)
   \<and> parseFields testEnv docNestedEmpty [''field_b''] False [fieldC] [VString []] False
       = (False, None, [VString []])
   \<and> bindField testEnv docNestedEmpty [] False fieldB VNil True = Continue True VNil
   \<and> parseFields testEnv docNestedEmpty [] False [fieldB] [VNil] False = (False, None, [VNil])
   \<and> locate testEnv docNested [] fieldB
       = Found [''field_b''] ''{"field_c": "content c"}'' jsonparser_Object
   \<and> parseFields testEnv docNested [''field_b''] False [fieldC] [VString []] False
       = (True, None, [VString ''content c''])
   \<and> bindField testEnv docNested [] False fieldB VNil False
       = Continue True (VPtr (VStruct [VString ''content c'']))
   \<and> structTarget False (StructOf ''substruct'' [fieldC]) (VPtr (VStruct [VString ''kept'']))
       = (VStruct [VString ''kept''], False)
   \<and> parseFields testEnv docNestedEmpty [''field_b''] False [fieldC] [VString ''kept''] False
       = (False, None, [VString ''kept''])
   \<and> bindField testEnv docNestedEmpty [] False fieldB (VPtr (VStruct [VString ''kept''])) False
       = Continue False (VPtr (VStruct [VString ''kept'']))\<close>
proof -
  let ?t = "StructOf ''substruct'' [fieldC]"
  have a: "locate testEnv docNestedEmpty [] fieldB
             = Found [''field_b''] ''{}'' jsonparser_Object"
    by (simp add: instance_defs fieldB_def fieldC_def)
  have a': \<open>locate testEnv docNested [] fieldB
             = Found [''field_b''] ''{"field_c": "content c"}'' jsonparser_Object\<close>
    by (simp add: instance_defs fieldB_def fieldC_def)
  have b: "\<not> False" and c: "Exported fieldB"
    by (simp_all add: instance_defs fieldB_def fieldC_def)
  have d: "customUnmarshal testEnv True (extractNonPointerFieldType (Type fieldB))
             [''field_b''] ''{}'' jsonparser_Object = Inr None"
    by (simp add: instance_defs fieldB_def fieldC_def customUnmarshal_def)
  have d': \<open>customUnmarshal testEnv True (extractNonPointerFieldType (Type fieldB))
             [''field_b''] ''{"field_c": "content c"}'' jsonparser_Object = Inr None\<close>
    by (simp add: instance_defs fieldB_def fieldC_def customUnmarshal_def)
  have s: "extractNonPointerFieldType (Type fieldB) = ?t"
    by (simp add: instance_defs fieldB_def fieldC_def)
  have g: "structTarget False ?t VNil = (VStruct [VString []], False)"
    by (simp add: instance_defs fieldB_def fieldC_def structTarget_def)
  have r: "parseFields testEnv docNestedEmpty [''field_b''] False [fieldC] [VString []] False
             = (False, None, [VString []])"
    by code_simp
  have r': "parseFields testEnv docNested [''field_b''] False [fieldC] [VString []] False
             = (True, None, [VString ''content c''])"
    by code_simp
  have g': "structTarget False ?t (VPtr (VStruct [VString ''kept'']))
              = (VStruct [VString ''kept''], False)"
    by (simp add: structTarget_def)
  have r'': "parseFields testEnv docNestedEmpty [''field_b''] False [fieldC] [VString ''kept'']
               False = (False, None, [VString ''kept''])"
    by code_simp
  have v: "assignedValue (Type fieldB) (VStruct [VString ''content c''])
             = VPtr (VStruct [VString ''content c''])"
    by code_simp
  show ?thesis
    using nested_record_attached_iff_set[OF a b c d s g r, of True "[]" "[]"]
      nested_record_attached_iff_set[OF a b c d s g r, of False "[]" "[]"]
      nested_record_attached_iff_set[OF a' b c d' s g r', of False "[]" "[]"]
      nested_record_attached_iff_set[OF a b c d s g' r'', of False "[]" "[]"]
      a a' c s g g' r r' r'' v
    by simp
qed

text \<open>
  When the recursive call returns an error instead, the enclosing call returns it at
  once, with its flag joined with the flag of the recursive call: an error anywhere
  below ends every enclosing call.
\<close>

lemma nested_error_aborts:
  assumes "locate e b p f = Found jsonPath valueBytes dataType"
    and "customUnmarshal e (\<not> (ro \<or> \<not> Exported f)) (extractNonPointerFieldType (Type f))
           jsonPath valueBytes dataType = Inr None"
    and "extractNonPointerFieldType (Type f) = StructOf n sfs"
    and "structTarget (ro \<or> \<not> Exported f) (StructOf n sfs) v = (VStruct svs, subRO)"
    and "parseFields e b jsonPath subRO sfs svs False = (sub, Some err, svs')"
  shows "bindField e b p ro f v a = Return (a \<or> sub) err (writeThrough v (VStruct svs'))"
    and "parseFields e b p ro (f # fs) (v # vs) a =
           (a \<or> sub, Some err, writeThrough v (VStruct svs') # vs)"
proof -
  show "bindField e b p ro f v a = Return (a \<or> sub) err (writeThrough v (VStruct svs'))"
    using assms by (simp add: bindField.simps)
  then show "parseFields e b p ro (f # fs) (v # vs) a =
           (a \<or> sub, Some err, writeThrough v (VStruct svs') # vs)"
    by (simp add: parseFields.simps(3))
qed

text \<open>
  Claim C3. For an included field with a resolved key: when the node lookup reports
  \<open>KeyPathNotFoundError\<close>, the pass through the loop body leaves the field and the
  flag as they were and the loop goes on with the next field; when it reports any other
  error, the call returns at once with the flag so far and an error that holds the JSON
  path of the field.
\<close>

theorem node_lookup_failures:
  assumes "IncludeField e f" and "extractJSONKey e f = Inr jsonKey"
  shows "(Get e b (p @ [jsonKey]) = Inl KeyPathNotFoundError \<longrightarrow>
            bindField e b p ro f v a = Continue a v
          \<and> parseFields e b p ro (f # fs) (v # vs) a =
              (case parseFields e b p ro fs vs a of (a', err, vs') \<Rightarrow> (a', err, v # vs')))
       \<and> (\<forall>err. Get e b (p @ [jsonKey]) = Inl err \<and> err \<noteq> KeyPathNotFoundError \<longrightarrow>
            bindField e b p ro f v a = Return a (JsonparserError (p @ [jsonKey]) err) v
          \<and> parseFields e b p ro (f # fs) (v # vs) a =
              (a, Some (JsonparserError (p @ [jsonKey]) err), v # vs))"
  using assms
  by (simp add: parseFields.simps(3) bindField.simps locate_def newJsonparserError_def)

text \<open>
  Claim C3 at the document \<open>{}\<close> (key absent) and at \<open>{"field_b": text}\<close> (a value
  of unknown type).
\<close>

theorem node_lookup_failures_witness:
  "IncludeField testEnv (fieldA stringType)
   \<and> extractJSONKey testEnv (fieldA stringType) = Inr ''field_a''
   \<and> Get testEnv docEmpty ([] @ [''field_a'']) = Inl KeyPathNotFoundError
   \<and> bindField testEnv docEmpty [] False (fieldA stringType) (VString []) False
       = Continue False (VString [])
   \<and> parseFields testEnv docEmpty [] False [fieldA stringType] [VString []] False
       = (False, None, [VString []])
   \<and> IncludeField testEnv fieldBjson
   \<and> extractJSONKey testEnv fieldBjson = Inr ''field_b''
   \<and> Get testEnv docUnquoted ([] @ [''field_b''])
       = Inl (OtherJsonparserError ''Unknown value type'')
   \<and> parseFields testEnv docUnquoted [] False [fieldBjson] [VString []] False
       = (False, Some (JsonparserError [''field_b''] (OtherJsonparserError ''Unknown value type'')),
          [VString []])"
proof -
  have a: "IncludeField testEnv (fieldA stringType)"
    and b: "extractJSONKey testEnv (fieldA stringType) = Inr ''field_a''"
    and c: "Get testEnv docEmpty ([] @ [''field_a'']) = Inl KeyPathNotFoundError"
    by (simp_all add: instance_defs fieldBjson_def)
  have a': "IncludeField testEnv fieldBjson"
    and b': "extractJSONKey testEnv fieldBjson = Inr ''field_b''"
    and c': "Get testEnv docUnquoted ([] @ [''field_b''])
             = Inl (OtherJsonparserError ''Unknown value type'')"
    by (simp_all add: instance_defs fieldBjson_def)
  show ?thesis
    using node_lookup_failures[OF a b, of docEmpty "[]" False "VString []" False "[]" "[]"]
      node_lookup_failures[OF a' b', of docUnquoted "[]" False "VString []" False "[]" "[]"]
      a b c a' b' c'
    by simp
qed

text \<open>
  Claim C4. Let the field be included and exported, its node found, and let the type
  dispatcher produce the concrete value \<open>x\<close>: from a custom hook, from the switch on
  the kind, or from a recursive call that reports a field set. Then the loop body
  assigns to the field the value \<open>x\<close> under exactly \<open>N\<close> pointers, where \<open>N\<close> is the
  static indirection depth of the field type (for \<open>N = 0\<close> that is \<open>x\<close> itself), sets
  the flag and goes on. On the heap, for every \<open>N \<ge> 1\<close> and whatever was allocated
  before, the construction appends \<open>N\<close> new variables and leaves the old ones alone;
  the first new variable is the one assigned to the field, each of the first \<open>N - 1\<close>
  points to the next, and the last holds \<open>x\<close>.
\<close>

theorem pointer_chain_of_static_depth:
  assumes "locate e b p f = Found jsonPath valueBytes dataType"
    and "\<not> ro" and "Exported f"
    and "t = extractNonPointerFieldType (Type f)"
    and "N = indirectionDepth (Type f)"
    and "customUnmarshal e True t jsonPath valueBytes dataType = Inr (Some x)
         \<or> (customUnmarshal e True t jsonPath valueBytes dataType = Inr None
            \<and> Kind t \<noteq> reflect_Struct
            \<and> convertKind e f t jsonPath valueBytes dataType = Inr (Some x))
         \<or> (customUnmarshal e True t jsonPath valueBytes dataType = Inr None
            \<and> (\<exists>n sfs svs svs'. t = StructOf n sfs
                  \<and> structTarget False t v = (VStruct svs, False)
                  \<and> parseFields e b jsonPath False sfs svs False = (True, None, svs')
                  \<and> x = VStruct svs'))"
  shows "bindField e b p ro f v a = Continue True ((VPtr ^^ N) x)
       \<and> parseFields e b p ro (f # fs) (v # vs) a =
           (case parseFields e b p ro fs vs True of
              (a', err, vs') \<Rightarrow> (a', err, (VPtr ^^ N) x # vs'))
       \<and> (\<forall>h elemType h' ptr.
             Type f = PointerTo elemType \<and> buildChain h elemType x = (h', ptr) \<longrightarrow>
               ptr = length h \<and> length h' = length h + N \<and> take (length h) h' = h
             \<and> (\<forall>i < N - 1. h' ! (length h + i) = Ref (length h + Suc i))
             \<and> h' ! (length h + (N - 1)) = Val x)"
proof -
  have b: "bindField e b p ro f v a = Continue True (assignedValue (Type f) x)"
    using assms(6)
  proof (elim disjE conjE exE)
    assume "customUnmarshal e True t jsonPath valueBytes dataType = Inr (Some x)"
    then show ?thesis
      using assms(1,2,3) assms(4)[symmetric] by (simp add: bindField.simps setField_def)
  next
    assume c: "customUnmarshal e True t jsonPath valueBytes dataType = Inr None"
      and k: "Kind t \<noteq> reflect_Struct"
      and v: "convertKind e f t jsonPath valueBytes dataType = Inr (Some x)"
    show ?thesis
      using assms(1,2,3) assms(4)[symmetric] c k v
      by (cases t) (simp_all add: bindField.simps setField_def)
  next
    fix n sfs svs svs'
    assume c: "customUnmarshal e True t jsonPath valueBytes dataType = Inr None"
      and t: "t = StructOf n sfs"
      and s: "structTarget False t v = (VStruct svs, False)"
      and r: "parseFields e b jsonPath False sfs svs False = (True, None, svs')"
      and x: "x = VStruct svs'"
    show ?thesis
      using assms(1,2,3) assms(4)[symmetric] c t s r x
      by (simp add: bindField.simps setField_def)
  qed
  have heap: "\<And>h elemType h' ptr.
      Type f = PointerTo elemType \<Longrightarrow> buildChain h elemType x = (h', ptr) \<Longrightarrow>
        ptr = length h \<and> length h' = length h + N \<and> take (length h) h' = h
      \<and> (\<forall>i < N - 1. h' ! (length h + i) = Ref (length h + Suc i))
      \<and> h' ! (length h + (N - 1)) = Val x"
  proof -
    fix h elemType h' ptr
    assume ty: "Type f = PointerTo elemType" and bc: "buildChain h elemType x = (h', ptr)"
    have "N = Suc (indirectionDepth elemType)"
      using assms(5) ty by simp
    then show "ptr = length h \<and> length h' = length h + N \<and> take (length h) h' = h
      \<and> (\<forall>i < N - 1. h' ! (length h + i) = Ref (length h + Suc i))
      \<and> h' ! (length h + (N - 1)) = Val x"
      using buildChain_heap[OF bc] by simp
  qed
  have p1: "bindField e b p ro f v a = Continue True ((VPtr ^^ N) x)"
    using b assms(5) by (simp add: assignedValue_chain)
  have p2: "parseFields e b p ro (f # fs) (v # vs) a =
           (case parseFields e b p ro fs vs True of
              (a', err, vs') \<Rightarrow> (a', err, (VPtr ^^ N) x # vs'))"
    using p1 by (simp add: parseFields.simps(3))
  have p3: "\<forall>h elemType h' ptr.
             Type f = PointerTo elemType \<and> buildChain h elemType x = (h', ptr) \<longrightarrow>
               ptr = length h \<and> length h' = length h + N \<and> take (length h) h' = h
             \<and> (\<forall>i < N - 1. h' ! (length h + i) = Ref (length h + Suc i))
             \<and> h' ! (length h + (N - 1)) = Val x"
    using heap by blast
  show ?thesis
    using p1 p2 p3 by (intro conjI)
qed

text \<open>
  Claim C4 at a field of type \<open>**uint\<close> and the document \<open>{"field_a": 10}\<close>.
\<close>

theorem pointer_chain_of_static_depth_witness:
  "locate testEnv docNumber [] (fieldA (PointerTo (PointerTo uintType)))
     = Found [''field_a''] ''10'' jsonparser_Number
   \<and> Exported (fieldA (PointerTo (PointerTo uintType)))
   \<and> uintType = extractNonPointerFieldType (Type (fieldA (PointerTo (PointerTo uintType))))
   \<and> 2 = indirectionDepth (Type (fieldA (PointerTo (PointerTo uintType))))
   \<and> convertKind testEnv (fieldA (PointerTo (PointerTo uintType))) uintType [''field_a'']
         ''10'' jsonparser_Number = Inr (Some (VInt 10))
   \<and> bindField testEnv docNumber [] False (fieldA (PointerTo (PointerTo uintType))) VNil False
       = Continue True (VPtr (VPtr (VInt 10)))
   \<and> parseFields testEnv docNumber [] False [fieldA (PointerTo (PointerTo uintType))] [VNil]
         False
       = (True, None, [VPtr (VPtr (VInt 10))])
   \<and> buildChain [Val VNil] (PointerTo uintType) (VInt 10)
       = ([Val VNil, Ref 2, Val (VInt 10)], 1)"
proof -
  let ?f = "fieldA (PointerTo (PointerTo uintType))"
  have a: "locate testEnv docNumber [] ?f = Found [''field_a''] ''10'' jsonparser_Number"
    by (simp add: instance_defs uintType_def)
  have b: "\<not> False" and c: "Exported ?f"
    by (simp_all add: instance_defs uintType_def)
  have t: "uintType = extractNonPointerFieldType (Type ?f)"
    and n: "2 = indirectionDepth (Type ?f)"
    by (simp_all add: instance_defs uintType_def)
  have cu: "customUnmarshal testEnv True uintType [''field_a''] ''10'' jsonparser_Number
              = Inr None"
    by (simp add: instance_defs uintType_def customUnmarshal_def)
  have k: "Kind uintType \<noteq> reflect_Struct"
    by (simp add: instance_defs uintType_def)
  have ck: "convertKind testEnv ?f uintType [''field_a''] ''10'' jsonparser_Number
              = Inr (Some (VInt 10))"
    by code_simp
  have ty: "Type ?f = PointerTo (PointerTo uintType)"
    by (simp add: instance_defs uintType_def)
  have bc: "buildChain [Val VNil] (PointerTo uintType) (VInt 10)
              = ([Val VNil, Ref 2, Val (VInt 10)], 1)"
    by code_simp
  have v2: "(VPtr ^^ 2) (VInt 10) = VPtr (VPtr (VInt 10))"
    by (simp add: numeral_2_eq_2)
  show ?thesis
    using pointer_chain_of_static_depth[OF a b c t n disjI2[OF disjI1[OF conjI[OF cu conjI[OF k ck]]]],
        of VNil False "[]" "[]"]
      a c t n ck bc v2
    by simp
qed

text \<open>
  Claim C5. For a correctly configured source: when the byte acquisition reports
  \<open>ErrSourceNotFound\<close> and \<open>must\<close> is unset, \<open>Parse\<close> returns false and no error
  and leaves the record unchanged; when \<open>must\<close> is set it returns that error; every
  other error of the byte acquisition is returned whatever \<open>must\<close> is.
\<close>

theorem must_flag:
  assumes "verify s = None"
  shows "(getBytes e s = Inl ErrSourceNotFound \<and> \<not> must s
            \<longrightarrow> Parse e s t target = (False, None, target))
       \<and> (getBytes e s = Inl ErrSourceNotFound \<and> must s
            \<longrightarrow> Parse e s t target = (False, Some ErrSourceNotFound, target))
       \<and> (\<forall>err. getBytes e s = Inl err \<and> err \<noteq> ErrSourceNotFound
            \<longrightarrow> Parse e s t target = (False, Some err, target))"
  using assms by (simp add: Parse_def)

text \<open>
  Claim C5 at a path that does not exist, with and without \<open>Must\<close>, and at a reader
  that fails.
\<close>

theorem must_flag_witness:
  "verify (Path ''./doesntexist.json'' Source) = None
   \<and> getBytes testEnv (Path ''./doesntexist.json'' Source) = Inl ErrSourceNotFound
   \<and> Parse testEnv (Path ''./doesntexist.json'' Source) (configuration []) (VStruct [])
       = (False, None, VStruct [])
   \<and> Parse testEnv (Must (Path ''./doesntexist.json'' Source)) (configuration []) (VStruct [])
       = (False, Some ErrSourceNotFound, VStruct [])
   \<and> getBytes testEnv (Reader (Inl (IOFailure ''you shall not read'')) Source)
       = Inl (ErrAcquisition (IOFailure ''you shall not read''))
   \<and> Parse testEnv (Reader (Inl (IOFailure ''you shall not read'')) Source) (configuration [])
         (VStruct [])
       = (False, Some (ErrAcquisition (IOFailure ''you shall not read'')), VStruct [])"
proof -
  let ?s = "Path ''./doesntexist.json'' Source"
  let ?r = "Reader (Inl (IOFailure ''you shall not read'')) Source"
  have v: "verify ?s = None" "verify (Must ?s) = None" "verify ?r = None"
    by (simp_all add: verify_def dataSourcesCount_def Path_def Source_def Must_def Reader_def)
  have g: "getBytes testEnv ?s = Inl ErrSourceNotFound"
      "getBytes testEnv (Must ?s) = Inl ErrSourceNotFound"
      "getBytes testEnv ?r = Inl (ErrAcquisition (IOFailure ''you shall not read''))"
    by (simp_all add: getBytes_def Path_def Source_def Must_def Reader_def testEnv_def
          deferredNotFound_def os_IsNotExist_def errors_Is_ErrNotExist_def)
  have m: "\<not> must ?s" "must (Must ?s)"
    by (simp_all add: Path_def Source_def Must_def)
  show ?thesis
    using must_flag[OF v(1), of testEnv "configuration []" "VStruct []"]
      must_flag[OF v(2), of testEnv "configuration []" "VStruct []"]
      must_flag[OF v(3), of testEnv "configuration []" "VStruct []"] v g m
    by simp
qed

text \<open>
  Claim C6. For an included, exported field whose node is found and whose stripped type
  has the JSON decode hook \<open>u\<close>: the hook receives the raw bytes between two quote
  characters when the coarse type of the node is \<open>String\<close>, and the raw bytes unchanged
  otherwise. When the hook fails, the call returns at once with an \<open>UnmarshalError\<close>
  that holds the JSON path of the field and the cause; when it succeeds, its value is
  assigned.
\<close>

theorem json_hook_quoting:
  assumes "locate e b p f = Found jsonPath valueBytes dataType"
    and "\<not> ro" and "Exported f"
    and "jsonUnmarshaler e (extractNonPointerFieldType (Type f)) = Some u"
    and "passed = (if dataType = jsonparser_String then quote # valueBytes @ [quote]
                   else valueBytes)"
  shows "customUnmarshal e True (extractNonPointerFieldType (Type f)) jsonPath valueBytes
           dataType =
           (case u passed of
              Inl cause \<Rightarrow> Inl (UnmarshalError jsonPath cause)
            | Inr x \<Rightarrow> Inr (Some x))
       \<and> (\<forall>cause. u passed = Inl cause \<longrightarrow>
            bindField e b p ro f v a = Return a (UnmarshalError jsonPath cause) v
          \<and> parseFields e b p ro (f # fs) (v # vs) a =
              (a, Some (UnmarshalError jsonPath cause), v # vs))
       \<and> (\<forall>x. u passed = Inr x \<longrightarrow>
            bindField e b p ro f v a = Continue True (assignedValue (Type f) x))"
  using assms
  by (auto simp add: parseFields.simps(3) bindField.simps customUnmarshal_def
        newUnmarshalError_def setField_def split: sum.splits)

text \<open>
  Claim C6 at a field whose hook reads a decimal integer: the string node
  \<open>notanint\<close> reaches it in quotes and is rejected, the number node \<open>10\<close> reaches it
  unchanged and is accepted.
\<close>

theorem json_hook_quoting_witness:
  "locate testEnv docNotAnInt [] (fieldA intJSONType)
     = Found [''field_a''] ''notanint'' jsonparser_String
   \<and> Exported (fieldA intJSONType)
   \<and> customUnmarshal testEnv True (extractNonPointerFieldType (Type (fieldA intJSONType)))
         [''field_a''] ''notanint'' jsonparser_String
       = Inl (UnmarshalError [''field_a''] ''invalid syntax'')
   \<and> parseFields testEnv docNotAnInt [] False [fieldA intJSONType] [VInt 0] False
       = (False, Some (UnmarshalError [''field_a''] ''invalid syntax''), [VInt 0])
   \<and> locate testEnv docNumber [] (fieldA intJSONType)
     = Found [''field_a''] ''10'' jsonparser_Number
   \<and> bindField testEnv docNumber [] False (fieldA intJSONType) (VInt 0) False
       = Continue True (VInt 10)"
proof -
  let ?u = "\<lambda>data. case parseInt data of Inl err \<Rightarrow> Inl err | Inr i \<Rightarrow> Inr (VInt i)"
  have a: "locate testEnv docNotAnInt [] (fieldA intJSONType)
             = Found [''field_a''] ''notanint'' jsonparser_String"
    and a': "locate testEnv docNumber [] (fieldA intJSONType)
             = Found [''field_a''] ''10'' jsonparser_Number"
    by (simp_all add: instance_defs intJSONType_def)
  have b: "\<not> False" and c: "Exported (fieldA intJSONType)"
    by (simp_all add: instance_defs intJSONType_def)
  have d: "jsonUnmarshaler testEnv (extractNonPointerFieldType (Type (fieldA intJSONType))) = Some ?u"
    by (simp add: instance_defs intJSONType_def)
  have u1: "?u (quote # ''notanint'' @ [quote]) = Inl ''invalid syntax''"
    by (simp add: parseInt_def quote_def digitValue_def)
  have u2: "?u ''10'' = Inr (VInt 10)"
    by (simp add: parseInt_def digitValue_def)
  have t: "assignedValue (Type (fieldA intJSONType)) (VInt 10) = VInt 10"
    by (simp add: instance_defs intJSONType_def assignedValue_def)
  show ?thesis
    using json_hook_quoting[OF a b c d refl, of "VInt 0" False "[]" "[]"]
      json_hook_quoting[OF a' b c d refl, of "VInt 0" False "[]" "[]"]
      a a' c u1 u2 t
    by simp
qed

text \<open>
  Claim C7, the part the code fulfils. For a stripped type without the JSON hook and
  with the text hook \<open>u\<close>: on a \<open>String\<close> node the hook is invoked and its failure
  becomes an \<open>UnmarshalError\<close> with the path and the cause; on any other node the hook
  is not invoked and the switch on the kind decides. The bytes the hook receives are the
  raw bytes of the node: \<open>ParseString\<close> is not consulted.
\<close>

theorem text_hook_dispatch:
  assumes "locate e b p f = Found jsonPath valueBytes dataType"
    and "\<not> ro" and "Exported f"
    and "t = extractNonPointerFieldType (Type f)"
    and "jsonUnmarshaler e t = None"
    and "textUnmarshaler e t = Some u"
  shows "(dataType = jsonparser_String \<longrightarrow>
            customUnmarshal e True t jsonPath valueBytes dataType =
              (case u valueBytes of
                 Inl cause \<Rightarrow> Inl (UnmarshalError jsonPath cause)
               | Inr x \<Rightarrow> Inr (Some x))
          \<and> (\<forall>cause. u valueBytes = Inl cause \<longrightarrow>
                 bindField e b p ro f v a = Return a (UnmarshalError jsonPath cause) v)
          \<and> (\<forall>x. u valueBytes = Inr x \<longrightarrow>
                 bindField e b p ro f v a = Continue True (assignedValue (Type f) x)))
       \<and> (dataType \<noteq> jsonparser_String \<longrightarrow>
            customUnmarshal e True t jsonPath valueBytes dataType = Inr None)"
  using assms(1,2,3,5,6) assms(4)[symmetric]
  by (auto simp add: bindField.simps customUnmarshal_def newUnmarshalError_def setField_def
        split: sum.splits)

text \<open>
  The same at the text hook of the tests and the document \<open>{"field_a": "a\"b"}\<close>.
\<close>

theorem text_hook_dispatch_witness:
  "locate testEnv docEscaped [] (fieldA textHookType)
     = Found [''field_a''] [CHR ''a'', backslash, quote, CHR ''b''] jsonparser_String
   \<and> Exported (fieldA textHookType)
   \<and> jsonUnmarshaler testEnv (extractNonPointerFieldType (Type (fieldA textHookType))) = None
   \<and> bindField testEnv docEscaped [] False (fieldA textHookType) (VString []) False
       = Continue True (VString (toUpper [CHR ''a'', backslash, quote, CHR ''b'']))"
proof -
  let ?u = "\<lambda>data. Inr (VString (toUpper data)) :: string + govalue"
  have a: "locate testEnv docEscaped [] (fieldA textHookType)
     = Found [''field_a''] [CHR ''a'', backslash, quote, CHR ''b''] jsonparser_String"
    by (simp add: instance_defs textHookType_def backslash_def quote_def)
  have b: "\<not> False" and c: "Exported (fieldA textHookType)"
    by (simp_all add: instance_defs textHookType_def)
  have d: "jsonUnmarshaler testEnv (extractNonPointerFieldType (Type (fieldA textHookType))) = None"
    and d': "textUnmarshaler testEnv (extractNonPointerFieldType (Type (fieldA textHookType)))
              = Some ?u"
    by (simp_all add: instance_defs textHookType_def)
  have t: "\<And>x. assignedValue (Type (fieldA textHookType)) x = x"
    by (simp add: instance_defs textHookType_def assignedValue_def)
  show ?thesis
    using text_hook_dispatch[OF a b c refl d d', of "VString []" False] a c d t
    by simp
qed

text \<open>
  Claim C7 at the document \<open>{"field_a": "a\"b"}\<close>, where the claim and the code part.
  The raw bytes of the node are the four bytes \<open>a\"b\<close> and their unescaped form is
  the three bytes \<open>a"b\<close>. The text hook of the tests, which upper-cases what it
  receives, is given the raw bytes and stores the backslash; a plain string field of
  the same document receives the unescaped form.
\<close>

theorem text_hook_receives_raw_bytes:
  "Get testEnv docEscaped [''field_a'']
     = Inr ([CHR ''a'', backslash, quote, CHR ''b''], jsonparser_String)
   \<and> ParseString testEnv [CHR ''a'', backslash, quote, CHR ''b'']
       = Inr [CHR ''a'', quote, CHR ''b'']
   \<and> bindField testEnv docEscaped [] False (fieldA textHookType) (VString []) False
       = Continue True (VString [CHR ''A'', backslash, quote, CHR ''B''])
   \<and> bindField testEnv docEscaped [] False (fieldA stringType) (VString []) False
       = Continue True (VString [CHR ''a'', quote, CHR ''b''])"
  by code_simp

text \<open>
  Claim C8. Take an included, exported field without decode hooks whose stripped type
  \<open>t\<close> has kind \<open>Int64\<close>, and a \<open>String\<close> node whose content unescapes to
  \<open>stringValue\<close>. If \<open>t\<close> is assignable to \<open>time.Duration\<close>, the field receives what
  \<open>time.ParseDuration\<close> makes of \<open>stringValue\<close>, and a string it rejects ends the
  call with an error that wraps \<open>ErrParseValue\<close>. If \<open>t\<close> is not assignable to
  \<open>time.Duration\<close>, the result is that of the default case, the generic decoding of
  the raw bytes.
\<close>

theorem duration_literal:
  assumes "locate e b p f = Found jsonPath valueBytes jsonparser_String"
    and "\<not> ro" and "Exported f"
    and "t = extractNonPointerFieldType (Type f)"
    and "jsonUnmarshaler e t = None" and "textUnmarshaler e t = None"
    and "Kind t = reflect_Int64"
    and "ParseString e valueBytes = Inr stringValue"
  shows "(AssignableTo t durationType \<longrightarrow>
            (\<forall>d. ParseDuration e stringValue = Inr d \<longrightarrow>
               bindField e b p ro f v a = Continue True (assignedValue (Type f) (VInt d)))
          \<and> (\<forall>cause. ParseDuration e stringValue = Inl cause \<longrightarrow>
               bindField e b p ro f v a = Return a (DurationParseError stringValue (Name f)) v
             \<and> Unwrap (DurationParseError stringValue (Name f)) = Some ErrParseValue))
       \<and> (\<not> AssignableTo t durationType \<longrightarrow>
            convertKind e f t jsonPath valueBytes jsonparser_String =
              defaultDecode e t jsonPath valueBytes
          \<and> bindField e b p ro f v a =
              (case defaultDecode e t jsonPath valueBytes of
                 Inl err \<Rightarrow> Return a err v
               | Inr val \<Rightarrow> setField False (Type f) val v))"
proof -
  have c: "customUnmarshal e True t jsonPath valueBytes jsonparser_String = Inr None"
    using assms(5,6) by (simp add: customUnmarshal_def)
  have b: "bindField e b p ro f v a =
             (case convertKind e f t jsonPath valueBytes jsonparser_String of
                Inl err \<Rightarrow> Return a err v
              | Inr val \<Rightarrow> setField False (Type f) val v)"
    using assms(1,2,3,7) assms(4)[symmetric] c
    by (cases t) (simp_all add: bindField.simps)
  show ?thesis
    using assms(7,8)
    by (auto simp add: b convertKind_def durationDecode_def setField_def split: sum.splits)
qed

text \<open>
  Claim C8 at the documents of the tests: \<open>"10s"\<close> in a \<open>time.Duration\<close> field gives
  ten seconds, \<open>"ain't valid"\<close> gives the error, and \<open>"10s"\<close> in a plain \<open>int64\<close>
  field goes to the generic decoder, which rejects it.
\<close>

theorem duration_literal_witness:
  "locate testEnv docDuration [] (fieldA durationType)
     = Found [''field_a''] ''10s'' jsonparser_String
   \<and> Kind (extractNonPointerFieldType (Type (fieldA durationType))) = reflect_Int64
   \<and> AssignableTo (extractNonPointerFieldType (Type (fieldA durationType))) durationType
   \<and> ParseString testEnv ''10s'' = Inr ''10s''
   \<and> ParseDuration testEnv ''10s'' = Inr (10 * Second)
   \<and> bindField testEnv docDuration [] False (fieldA durationType) (VInt 0) False
       = Continue True (VInt (10 * Second))
   \<and> locate testEnv docDurationInvalid [] (fieldA durationType)
       = Found [''field_a''] ''ain't valid'' jsonparser_String
   \<and> ParseDuration testEnv ''ain't valid'' = Inl ''time: invalid duration''
   \<and> bindField testEnv docDurationInvalid [] False (fieldA durationType) (VInt 0) False
       = Return False (DurationParseError ''ain't valid'' ''FieldA'') (VInt 0)
   \<and> \<not> AssignableTo (extractNonPointerFieldType (Type (fieldA int64Type))) durationType
   \<and> bindField testEnv docDuration [] False (fieldA int64Type) (VInt 0) False
       = Return False (UnmarshalError [''field_a''] ''invalid syntax'') (VInt 0)"
proof -
  let ?f = "fieldA durationType"
  let ?g = "fieldA int64Type"
  have a: "locate testEnv docDuration [] ?f = Found [''field_a''] ''10s'' jsonparser_String"
    and a': "locate testEnv docDurationInvalid [] ?f
               = Found [''field_a''] ''ain't valid'' jsonparser_String"
    and a'': "locate testEnv docDuration [] ?g = Found [''field_a''] ''10s'' jsonparser_String"
    by (simp_all add: instance_defs int64Type_def)
  have b: "\<not> False" and c: "Exported ?f" and c': "Exported ?g"
    by (simp_all add: instance_defs int64Type_def)
  have h: "jsonUnmarshaler testEnv (extractNonPointerFieldType (Type ?f)) = None"
      "textUnmarshaler testEnv (extractNonPointerFieldType (Type ?f)) = None"
      "jsonUnmarshaler testEnv (extractNonPointerFieldType (Type ?g)) = None"
      "textUnmarshaler testEnv (extractNonPointerFieldType (Type ?g)) = None"
    by (simp_all add: instance_defs int64Type_def)
  have k: "Kind (extractNonPointerFieldType (Type ?f)) = reflect_Int64"
      "Kind (extractNonPointerFieldType (Type ?g)) = reflect_Int64"
    by (simp_all add: instance_defs int64Type_def)
  have ps: "ParseString testEnv ''10s'' = Inr ''10s''"
      "ParseString testEnv ''ain't valid'' = Inr ''ain't valid''"
    by (simp_all add: testEnv_def backslash_def)
  have as: "AssignableTo (extractNonPointerFieldType (Type ?f)) durationType"
      "\<not> AssignableTo (extractNonPointerFieldType (Type ?g)) durationType"
    by (simp_all add: instance_defs int64Type_def AssignableTo_def)
  have pd: "ParseDuration testEnv ''10s'' = Inr (10 * Second)"
      "ParseDuration testEnv ''ain't valid'' = Inl ''time: invalid duration''"
    by code_simp+
  have dd: "defaultDecode testEnv (extractNonPointerFieldType (Type ?g)) [''field_a''] ''10s''
              = Inl (UnmarshalError [''field_a''] ''invalid syntax'')"
    by code_simp
  have av: "assignedValue (Type ?f) (VInt (10 * Second)) = VInt (10 * Second)"
    by (simp add: instance_defs int64Type_def assignedValue_def)
  have nm: "Name ?f = ''FieldA''"
    by (simp add: instance_defs int64Type_def)
  show ?thesis
    using duration_literal[OF a b c refl h(1,2) k(1) ps(1), of "VInt 0" False]
      duration_literal[OF a' b c refl h(1,2) k(1) ps(2), of "VInt 0" False]
      duration_literal[OF a'' b c' refl h(3,4) k(2) ps(1), of "VInt 0" False]
      a a' k as ps pd dd av nm
    by simp
qed

text \<open>
  The other two ways into the default case for a field of kind \<open>Int64\<close>, whatever its
  type: a string node whose content does not unescape, and a node that is not a string.
\<close>

lemma duration_unescape_failure_falls_through:
  assumes "Kind t = reflect_Int64" and "ParseString e valueBytes = Inl err"
  shows "convertKind e f t jsonPath valueBytes dataType = defaultDecode e t jsonPath valueBytes"
  using assms by (simp add: convertKind_def durationDecode_def)

lemma non_string_node_falls_through:
  assumes "Kind t = reflect_Int64" and "dataType \<noteq> jsonparser_String"
  shows "convertKind e f t jsonPath valueBytes dataType = defaultDecode e t jsonPath valueBytes"
  using assms by (simp add: convertKind_def durationDecode_def)

text \<open>
  Claim C9, as the code has it. The error for a complex field is raised in the switch
  on the kind, which is reached only after the node lookup and the probe for hooks. So
  for a field of kind \<open>Complex64\<close> or \<open>Complex128\<close> without decode hooks, whenever its
  node is present the call returns \<open>UnsupportedTypeError\<close> with the name of the field,
  whatever the bytes and the coarse type of the node are.
\<close>

theorem complex_unsupported_when_present:
  assumes "locate e b p f = Found jsonPath valueBytes dataType"
    and "jsonUnmarshaler e (extractNonPointerFieldType (Type f)) = None"
    and "textUnmarshaler e (extractNonPointerFieldType (Type f)) = None"
    and "Kind (extractNonPointerFieldType (Type f)) = reflect_Complex64
         \<or> Kind (extractNonPointerFieldType (Type f)) = reflect_Complex128"
  shows "bindField e b p ro f v a = Return a (UnsupportedTypeError (Name f)) v
       \<and> parseFields e b p ro (f # fs) (v # vs) a =
           (a, Some (UnsupportedTypeError (Name f)), v # vs)
       \<and> Unwrap (UnsupportedTypeError (Name f)) = Some ErrUnsupportedFieldType"
proof -
  have c: "customUnmarshal e (\<not> (ro \<or> \<not> Exported f)) (extractNonPointerFieldType (Type f))
             jsonPath valueBytes dataType = Inr None"
    using assms(2,3) by (simp add: customUnmarshal_def)
  have k: "convertKind e f (extractNonPointerFieldType (Type f)) jsonPath valueBytes dataType
             = Inl (UnsupportedTypeError (Name f))"
    using assms(4) by (auto simp add: convertKind_def)
  have "bindField e b p ro f v a = Return a (UnsupportedTypeError (Name f)) v"
    using assms(1,4) c k
    by (cases "extractNonPointerFieldType (Type f)") (auto simp add: bindField.simps)
  then show ?thesis by (simp add: parseFields.simps(3))
qed

text \<open>
  The amended claim C9 at the document \<open>{"field_a": "irrelevant"}\<close>.
\<close>

theorem complex_unsupported_when_present_witness:
  "locate testEnv docIrrelevant [] (fieldA complex64Type)
     = Found [''field_a''] ''irrelevant'' jsonparser_String
   \<and> jsonUnmarshaler testEnv (extractNonPointerFieldType (Type (fieldA complex64Type))) = None
   \<and> textUnmarshaler testEnv (extractNonPointerFieldType (Type (fieldA complex64Type))) = None
   \<and> Kind (extractNonPointerFieldType (Type (fieldA complex64Type))) = reflect_Complex64
   \<and> parseFields testEnv docIrrelevant [] False [fieldA complex64Type] [VOther []] False
       = (False, Some (UnsupportedTypeError ''FieldA''), [VOther []])"
proof -
  have a: "locate testEnv docIrrelevant [] (fieldA complex64Type)
             = Found [''field_a''] ''irrelevant'' jsonparser_String"
    by (simp add: instance_defs complex64Type_def)
  have b: "jsonUnmarshaler testEnv (extractNonPointerFieldType (Type (fieldA complex64Type))) = None"
    and c: "textUnmarshaler testEnv (extractNonPointerFieldType (Type (fieldA complex64Type))) = None"
    and d: "Kind (extractNonPointerFieldType (Type (fieldA complex64Type))) = reflect_Complex64"
    by (simp_all add: instance_defs complex64Type_def)
  have n: "Name (fieldA complex64Type) = ''FieldA''"
    by (simp add: instance_defs complex64Type_def)
  show ?thesis
    using complex_unsupported_when_present[OF a b c disjI1[OF d], of False "VOther []" False "[]" "[]"]
      a b c d n
    by simp
qed

text \<open>
  Claim C9 as stated fails at the document \<open>{}\<close>: the key of the complex field is
  absent, the field is skipped, and \<open>Parse\<close> returns without error.
\<close>

theorem complex_absent_counterexample:
  "Kind complex64Type = reflect_Complex64
   \<and> Get testEnv docEmpty [''field_a''] = Inl KeyPathNotFoundError
   \<and> Parse testEnv (Bytes docEmpty Source) (configuration [fieldA complex64Type])
         (VStruct [VOther []])
       = (True, None, VStruct [VOther []])"
  by code_simp

text \<open>
  Claim C10. A source configured only by \<open>Bytes\<close> with an empty slice, or only by
  \<open>String\<close> with the empty string, makes \<open>Parse\<close> return false and
  \<open>ErrNoDataSourceSpecified\<close> with the record unchanged; \<open>verify\<close> accepts such a
  source exactly when the buffer is not empty.
\<close>

theorem empty_bytes_no_data_source:
  "Parse e (Bytes [] Source) t target = (False, Some ErrNoDataSourceSpecified, target)
   \<and> Parse e (String_src [] Source) t target = (False, Some ErrNoDataSourceSpecified, target)
   \<and> verify (Bytes data Source) = (if data = [] then Some ErrNoDataSourceSpecified else None)
   \<and> verify (String_src data Source) = (if data = [] then Some ErrNoDataSourceSpecified else None)"
  by (simp add: Parse_def verify_def dataSourcesCount_def Bytes_def String_src_def Source_def)

end
